theory Spec2Isabelle
  imports Main
begin

section \<open>Data model shared by the isAllowed examples\<close>

text \<open>
  Every example file declares the same two interfaces.
  \<^verbatim>\<open>interface User { name: string; tier: "basic" | "premium"; is_admin: boolean; }\<close>
  \<^verbatim>\<open>interface Resource { vis: "public" | "premium" | "private"; owner: string; }\<close>
  The two string-literal unions are closed, so each is a datatype; the
  \<^verbatim>\<open>assertNever\<close> branches of the source are unreachable for values of these types.
\<close>

datatype tier = TierBasic | TierPremium

datatype vis = VisPublic | VisPremium | VisPrivate

record User =
  name :: string
  tier :: tier
  is_admin :: bool

record Resource =
  vis :: vis
  owner :: string

text \<open>
  \<^verbatim>\<open>const BANNED_USERS : string[] = [];\<close> is a module-level array. The functions below only
  read it (\<^verbatim>\<open>BANNED_USERS.includes(user.name)\<close>), so its contents at the time of the call
  are passed as the argument \<open>banned\<close>; \<open>BANNED_USERS\<close> is the array as initialised.
\<close>

definition BANNED_USERS :: "string list" where
  "BANNED_USERS = []"

section \<open>Example 4: policies as a chain of evaluators\<close>

text \<open>
  \<^verbatim>\<open>type AccessEvaluator = (user: User, res: Resource) => boolean | undefined;\<close>
  The result \<^verbatim>\<open>undefined\<close> is \<open>None\<close>, \<^verbatim>\<open>true\<close> and \<^verbatim>\<open>false\<close> are \<open>Some True\<close> and
  \<open>Some False\<close>. The five members of the \<^verbatim>\<open>EVALUATORS\<close> object follow, each under its
  own name; only \<open>DENY_BANNED\<close> reads the ban list.
\<close>

type_synonym AccessEvaluator = "User \<Rightarrow> Resource \<Rightarrow> bool option"

definition ALLOW_ADMINS :: AccessEvaluator where
  "ALLOW_ADMINS user _ = (if is_admin user then Some True else None)"

definition DENY_BANNED :: "string list \<Rightarrow> AccessEvaluator" where
  "DENY_BANNED banned user _ = (if name user \<in> set banned then Some False else None)"

definition OWNER_CAN_ACCESS :: AccessEvaluator where
  "OWNER_CAN_ACCESS user res = (if name user = owner res then Some True else None)"

definition ALLOW_BY_TIER :: AccessEvaluator where
  "ALLOW_BY_TIER user res =
     (case vis res of
        VisPublic \<Rightarrow> Some True
      | VisPremium \<Rightarrow> (if tier user = TierPremium then Some True else Some False)
      | VisPrivate \<Rightarrow> None)"

definition FREE_PREMIUM_ACCESS :: AccessEvaluator where
  "FREE_PREMIUM_ACCESS user res = (if vis res = VisPremium then Some True else None)"

type_synonym AccessPolicy = "AccessEvaluator list"

text \<open>
  \<^verbatim>\<open>for (const fn of policy) { const result = fn(user, res);
       if (result !== undefined) { return result; } }
  return undefined;\<close>
\<close>

fun evaluatePolicy :: "AccessPolicy \<Rightarrow> User \<Rightarrow> Resource \<Rightarrow> bool option" where
  "evaluatePolicy [] user res = None"
| "evaluatePolicy (fn # policy) user res =
     (case fn user res of
        Some result \<Rightarrow> Some result
      | None \<Rightarrow> evaluatePolicy policy user res)"

definition normal_policy :: "string list \<Rightarrow> AccessPolicy" where
  "normal_policy banned =
     [ALLOW_ADMINS, DENY_BANNED banned, OWNER_CAN_ACCESS, ALLOW_BY_TIER]"

definition anniversary_policy :: "string list \<Rightarrow> AccessPolicy" where
  "anniversary_policy banned =
     [ALLOW_ADMINS, DENY_BANNED banned, OWNER_CAN_ACCESS, FREE_PREMIUM_ACCESS, ALLOW_BY_TIER]"

definition strict_policy :: "string list \<Rightarrow> AccessPolicy" where
  "strict_policy banned = [ALLOW_ADMINS, DENY_BANNED banned, OWNER_CAN_ACCESS]"

definition debug_policy :: AccessPolicy where
  "debug_policy = [\<lambda>_ _. Some True]"

text \<open>\<^verbatim>\<open>return evaluatePolicy(policy, user, res) ?? false;\<close>\<close>

definition isAllowed :: "AccessPolicy \<Rightarrow> User \<Rightarrow> Resource \<Rightarrow> bool" where
  "isAllowed policy user res =
     (case evaluatePolicy policy user res of
        Some result \<Rightarrow> result
      | None \<Rightarrow> False)"

text \<open>
  The generic chain walk. The rest parameter \<^verbatim>\<open>...args: TArgs\<close> is one value of the
  argument-tuple type, and each function of the chain is applied to it.
\<close>

fun evaluateChain :: "('args \<Rightarrow> 'result option) list \<Rightarrow> 'args \<Rightarrow> 'result option" where
  "evaluateChain [] args = None"
| "evaluateChain (fn # chain) args =
     (case fn args of
        Some result \<Rightarrow> Some result
      | None \<Rightarrow> evaluateChain chain args)"

section \<open>Example 3: policies as strategies\<close>

text \<open>
  \<^verbatim>\<open>interface AccessPolicy { is_banned: ..., allow_by_visibility: { public: ..., premium: ...,
  private: ... } }\<close>. The lookup \<^verbatim>\<open>policy.allow_by_visibility[res.vis]\<close> selects the member named
  by the visibility. (\<open>private\<close> is reserved in Isabelle, hence \<open>private_member\<close>.)
\<close>

record allow_by_visibility_members =
  public :: "User \<Rightarrow> Resource \<Rightarrow> bool"
  premium :: "User \<Rightarrow> Resource \<Rightarrow> bool"
  private_member :: "User \<Rightarrow> Resource \<Rightarrow> bool"

record AccessPolicy_v3 =
  is_banned :: "User \<Rightarrow> Resource \<Rightarrow> bool"
  allow_by_visibility :: allow_by_visibility_members

definition member_at :: "allow_by_visibility_members \<Rightarrow> vis \<Rightarrow> User \<Rightarrow> Resource \<Rightarrow> bool" where
  "member_at m v =
     (case v of VisPublic \<Rightarrow> public m | VisPremium \<Rightarrow> premium m | VisPrivate \<Rightarrow> private_member m)"

definition normal_policies :: "string list \<Rightarrow> AccessPolicy_v3" where
  "normal_policies banned =
     \<lparr> is_banned = (\<lambda>user res. name user \<in> set banned),
       allow_by_visibility =
         \<lparr> public = (\<lambda>user res. True),
           premium = (\<lambda>user res. tier user = TierPremium),
           private_member = (\<lambda>user res. name user = owner res) \<rparr> \<rparr>"

definition anniversary_policies :: AccessPolicy_v3 where
  "anniversary_policies =
     \<lparr> is_banned = (\<lambda>user res. False),
       allow_by_visibility =
         \<lparr> public = (\<lambda>user res. True),
           premium = (\<lambda>user res. True),
           private_member = (\<lambda>user res. name user = owner res) \<rparr> \<rparr>"

definition isAllowed_v3 :: "AccessPolicy_v3 \<Rightarrow> User \<Rightarrow> Resource \<Rightarrow> bool" where
  "isAllowed_v3 policy user res =
     (if is_admin user then True
      else if is_banned policy user res then False
      else member_at (allow_by_visibility policy) (vis res) user res)"

section \<open>Example 2: hardcoded guards\<close>

text \<open>
  The source tests \<^verbatim>\<open>res.vis === "private"\<close> in a third \<^verbatim>\<open>else if\<close> and ends with
  \<^verbatim>\<open>else { assertNever(res.vis); }\<close>. A value of type \<open>vis\<close> that is neither public nor
  premium is private, so the third test is the last branch here.
\<close>

definition isAllowed_v2 :: "string list \<Rightarrow> User \<Rightarrow> Resource \<Rightarrow> bool" where
  "isAllowed_v2 banned user res =
     (if is_admin user then True
      else if name user \<in> set banned then False
      else if vis res = VisPublic then True
      else if vis res = VisPremium then tier user = TierPremium
      else name user = owner res)"

section \<open>The two-phase walk described by the specification\<close>

text \<open>
  The specification describes \<open>decide\<close> in two phases: every evaluator is run, in sequence
  order, giving one decision per evaluator, and a combinator reduces that sequence. Its
  decisions Allow, Deny and Abstain are the source's \<^verbatim>\<open>true\<close>, \<^verbatim>\<open>false\<close> and
  \<^verbatim>\<open>undefined\<close>. The two definitions below follow the specification's words, for comparison
  with \<open>evaluatePolicy\<close>: FirstDecisive is the first decision of the sequence that is not
  Abstain, and Abstain when there is none.
\<close>

definition FirstDecisive_spec :: "bool option list \<Rightarrow> bool option" where
  "FirstDecisive_spec ds =
     (case List.find (\<lambda>d. d \<noteq> None) ds of
        Some d \<Rightarrow> d
      | None \<Rightarrow> None)"

definition decide_spec :: "AccessPolicy \<Rightarrow> User \<Rightarrow> Resource \<Rightarrow> bool option" where
  "decide_spec policy user res =
     (if policy = [] then FirstDecisive_spec []
      else FirstDecisive_spec (map (\<lambda>fn. fn user res) policy))"

section \<open>Properties of the chain walk\<close>

lemma evaluatePolicy_all_None:
  "(\<forall>i<length policy. (policy ! i) user res = None) \<Longrightarrow>
   evaluatePolicy policy user res = None"
proof (induction policy)
  case Nil
  show ?case by simp
next
  case (Cons fn policy)
  from Cons.prems have "fn user res = None" by fastforce
  moreover from Cons.prems have "\<forall>i<length policy. (policy ! i) user res = None"
    by fastforce
  ultimately show ?case using Cons.IH by simp
qed

lemma evaluatePolicy_first_Some:
  "i < length policy \<Longrightarrow> (policy ! i) user res = Some d \<Longrightarrow>
   (\<forall>j<i. (policy ! j) user res = None) \<Longrightarrow>
   evaluatePolicy policy user res = Some d"
proof (induction policy arbitrary: i)
  case Nil
  then show ?case by simp
next
  case (Cons fn policy)
  show ?case
  proof (cases i)
    case 0
    with Cons.prems show ?thesis by simp
  next
    case (Suc k)
    with Cons.prems have "fn user res = None" by fastforce
    moreover have "evaluatePolicy policy user res = Some d"
    proof (rule Cons.IH[of k])
      show "k < length policy" using Cons.prems Suc by simp
      show "(policy ! k) user res = Some d" using Cons.prems Suc by simp
      show "\<forall>j<k. (policy ! j) user res = None"
      proof (intro allI impI)
        fix j assume "j < k"
        then have "Suc j < i" using Suc by simp
        with Cons.prems(3) have "((fn # policy) ! Suc j) user res = None" by blast
        then show "(policy ! j) user res = None" by simp
      qed
    qed
    ultimately show ?thesis by simp
  qed
qed

text \<open>
  C3: the chain walk returns the first decision of the chain that is not \<^verbatim>\<open>undefined\<close>
  (Abstain), in sequence order, and returns \<^verbatim>\<open>undefined\<close> when every evaluator abstains;
  the empty chain yields \<^verbatim>\<open>undefined\<close>.
\<close>

theorem evaluatePolicy_first_decisive:
  "evaluatePolicy [] user res = None \<and>
   ((\<forall>i<length policy. (policy ! i) user res = None) \<longrightarrow>
      evaluatePolicy policy user res = None) \<and>
   (i < length policy \<and> (policy ! i) user res = Some d \<and>
      (\<forall>j<i. (policy ! j) user res = None) \<longrightarrow>
      evaluatePolicy policy user res = Some d)"
  using evaluatePolicy_all_None [of policy user res]
    evaluatePolicy_first_Some [of i policy user res d]
  by simp

theorem evaluatePolicy_first_decisive_witness:
  "evaluatePolicy
     (strict_policy [])
     \<lparr>name = ''alice'', tier = TierBasic, is_admin = False\<rparr>
     \<lparr>vis = VisPublic, owner = ''bob''\<rparr> = None \<and>
   evaluatePolicy
     (normal_policy [''carol''])
     \<lparr>name = ''carol'', tier = TierBasic, is_admin = False\<rparr>
     \<lparr>vis = VisPublic, owner = ''carol''\<rparr> = Some False"
proof -
  let ?alice = "\<lparr>name = ''alice'', tier = TierBasic, is_admin = False\<rparr>"
  let ?carol = "\<lparr>name = ''carol'', tier = TierBasic, is_admin = False\<rparr>"
  let ?r1 = "\<lparr>vis = VisPublic, owner = ''bob''\<rparr>"
  let ?r2 = "\<lparr>vis = VisPublic, owner = ''carol''\<rparr>"
  have h1: "\<forall>i<length (strict_policy []). (strict_policy [] ! i) ?alice ?r1 = None"
    by (simp add: strict_policy_def ALLOW_ADMINS_def DENY_BANNED_def OWNER_CAN_ACCESS_def
        less_Suc_eq all_conj_distrib)
  have h2: "1 < length (normal_policy [''carol'']) \<and>
      (normal_policy [''carol''] ! 1) ?carol ?r2 = Some False \<and>
      (\<forall>j<1. (normal_policy [''carol''] ! j) ?carol ?r2 = None)"
    by (simp add: normal_policy_def ALLOW_ADMINS_def DENY_BANNED_def)
  from evaluatePolicy_first_decisive
    [where policy = "strict_policy []" and user = ?alice and res = ?r1 and i = 0 and d = True] h1
  have a: "evaluatePolicy (strict_policy []) ?alice ?r1 = None" by blast
  from evaluatePolicy_first_decisive
    [where policy = "normal_policy [''carol'']" and user = ?carol and res = ?r2 and i = 1
       and d = False] h2
  have b: "evaluatePolicy (normal_policy [''carol'']) ?carol ?r2 = Some False" by blast
  from a b show ?thesis by simp
qed

text \<open>
  C7: the short-circuiting walk of \<open>evaluatePolicy\<close> returns the same decision as running
  every evaluator of the chain, in order, and applying FirstDecisive to the full sequence of
  decisions.
\<close>

theorem evaluatePolicy_eq_decide_spec:
  "evaluatePolicy policy user res = decide_spec policy user res"
  unfolding decide_spec_def FirstDecisive_spec_def
  by (induction policy) (auto split: option.split)

text \<open>
  C9: \<open>evaluateChain\<close>, used at the argument tuple (user, resource) with boolean results,
  computes the same result as \<open>evaluatePolicy\<close>, \<^verbatim>\<open>undefined\<close> included.
\<close>

theorem evaluateChain_eq_evaluatePolicy:
  "evaluateChain (map (\<lambda>fn (user, res). fn user res) policy) (user, res) =
   evaluatePolicy policy user res"
  by (induction policy) (auto split: option.split)

section \<open>Properties of the evaluators and of the policies\<close>

text \<open>
  C1: on a premium resource the visibility-tiered evaluator should answer Allow for a premium
  user and Abstain otherwise, never Deny. At a basic user the source answers \<^verbatim>\<open>false\<close>
  (Deny), the line its own comment marks as a bug.
\<close>

theorem ALLOW_BY_TIER_premium_basic_denies:
  "ALLOW_BY_TIER
     \<lparr>name = ''alice'', tier = TierBasic, is_admin = False\<rparr>
     \<lparr>vis = VisPremium, owner = ''bob''\<rparr> = Some False"
  by (simp add: ALLOW_BY_TIER_def)

text \<open>
  C2, as amended: \<open>isAllowed\<close> maps the decision Allow to true, Deny to false and Abstain to
  the constant false; it takes no default argument from the caller.
\<close>

theorem isAllowed_maps_decision:
  "(evaluatePolicy policy user res = Some True \<longrightarrow> isAllowed policy user res = True) \<and>
   (evaluatePolicy policy user res = Some False \<longrightarrow> isAllowed policy user res = False) \<and>
   (evaluatePolicy policy user res = None \<longrightarrow> isAllowed policy user res = False)"
  by (simp add: isAllowed_def)

theorem isAllowed_maps_decision_witness:
  "isAllowed debug_policy
     \<lparr>name = ''alice'', tier = TierBasic, is_admin = False\<rparr>
     \<lparr>vis = VisPrivate, owner = ''bob''\<rparr> = True \<and>
   isAllowed (normal_policy [])
     \<lparr>name = ''alice'', tier = TierBasic, is_admin = False\<rparr>
     \<lparr>vis = VisPremium, owner = ''bob''\<rparr> = False \<and>
   isAllowed (strict_policy [])
     \<lparr>name = ''alice'', tier = TierBasic, is_admin = False\<rparr>
     \<lparr>vis = VisPublic, owner = ''bob''\<rparr> = False"
proof -
  let ?alice = "\<lparr>name = ''alice'', tier = TierBasic, is_admin = False\<rparr>"
  let ?r1 = "\<lparr>vis = VisPrivate, owner = ''bob''\<rparr>"
  let ?r2 = "\<lparr>vis = VisPremium, owner = ''bob''\<rparr>"
  let ?r3 = "\<lparr>vis = VisPublic, owner = ''bob''\<rparr>"
  have h1: "evaluatePolicy debug_policy ?alice ?r1 = Some True"
    by (simp add: debug_policy_def)
  have h2: "evaluatePolicy (normal_policy []) ?alice ?r2 = Some False"
    by (simp add: normal_policy_def ALLOW_ADMINS_def DENY_BANNED_def OWNER_CAN_ACCESS_def
        ALLOW_BY_TIER_def)
  have h3: "evaluatePolicy (strict_policy []) ?alice ?r3 = None"
    by (simp add: strict_policy_def ALLOW_ADMINS_def DENY_BANNED_def OWNER_CAN_ACCESS_def)
  from isAllowed_maps_decision [where policy = debug_policy and user = ?alice and res = ?r1] h1
  have a: "isAllowed debug_policy ?alice ?r1 = True" by blast
  from isAllowed_maps_decision
    [where policy = "normal_policy []" and user = ?alice and res = ?r2] h2
  have b: "isAllowed (normal_policy []) ?alice ?r2 = False" by blast
  from isAllowed_maps_decision
    [where policy = "strict_policy []" and user = ?alice and res = ?r3] h3
  have c: "isAllowed (strict_policy []) ?alice ?r3 = False" by blast
  from a b c show ?thesis by simp
qed

text \<open>
  C2 as stated fails: on the empty policy the decision is Abstain, and a caller whose default
  for that case is true still gets false.
\<close>

theorem isAllowed_default_counterexample:
  "evaluatePolicy []
     \<lparr>name = ''alice'', tier = TierBasic, is_admin = False\<rparr>
     \<lparr>vis = VisPublic, owner = ''bob''\<rparr> = None \<and>
   isAllowed []
     \<lparr>name = ''alice'', tier = TierBasic, is_admin = False\<rparr>
     \<lparr>vis = VisPublic, owner = ''bob''\<rparr> \<noteq> True"
  by (simp add: isAllowed_def)

text \<open>
  C4: an administrator is allowed by the baseline policy, whatever the ban list, the
  visibility and the owner of the resource.
\<close>

theorem normal_policy_admin_bypass:
  "is_admin user \<Longrightarrow> isAllowed (normal_policy banned) user res = True"
  by (simp add: isAllowed_def normal_policy_def ALLOW_ADMINS_def)

theorem normal_policy_admin_bypass_witness:
  "is_admin \<lparr>name = ''root'', tier = TierBasic, is_admin = True\<rparr> \<and>
   ''root'' \<in> set [''root''] \<and>
   isAllowed (normal_policy [''root''])
     \<lparr>name = ''root'', tier = TierBasic, is_admin = True\<rparr>
     \<lparr>vis = VisPrivate, owner = ''bob''\<rparr> = True"
proof -
  have h: "is_admin \<lparr>name = ''root'', tier = TierBasic, is_admin = True\<rparr>" by simp
  from normal_policy_admin_bypass [OF h, of "[''root'']" "\<lparr>vis = VisPrivate, owner = ''bob''\<rparr>"] h
  show ?thesis by simp
qed

text \<open>
  C5: a banned user who is not an administrator and owns the resource is refused by the
  baseline policy, where DENY_BANNED precedes OWNER_CAN_ACCESS; with the two evaluators
  swapped some such user is allowed, so the order of the chain matters.
\<close>

theorem ban_overrides_ownership:
  "(\<not> is_admin user \<and> name user \<in> set banned \<and> name user = owner res \<longrightarrow>
      isAllowed (normal_policy banned) user res = False) \<and>
   (\<exists>banned' user' res'.
      \<not> is_admin user' \<and> name user' \<in> set banned' \<and> name user' = owner res' \<and>
      isAllowed [ALLOW_ADMINS, OWNER_CAN_ACCESS, DENY_BANNED banned', ALLOW_BY_TIER]
        user' res' = True)"
proof (intro conjI impI)
  assume "\<not> is_admin user \<and> name user \<in> set banned \<and> name user = owner res"
  then have "ALLOW_ADMINS user res = None" and "DENY_BANNED banned user res = Some False"
    by (auto simp add: ALLOW_ADMINS_def DENY_BANNED_def)
  then show "isAllowed (normal_policy banned) user res = False"
    by (simp add: isAllowed_def normal_policy_def)
next
  let ?carol = "\<lparr>name = ''carol'', tier = TierBasic, is_admin = False\<rparr>"
  let ?r = "\<lparr>vis = VisPublic, owner = ''carol''\<rparr>"
  have "\<not> is_admin ?carol \<and> name ?carol \<in> set [''carol''] \<and> name ?carol = owner ?r \<and>
      isAllowed [ALLOW_ADMINS, OWNER_CAN_ACCESS, DENY_BANNED [''carol''], ALLOW_BY_TIER]
        ?carol ?r = True"
    by (simp add: isAllowed_def ALLOW_ADMINS_def OWNER_CAN_ACCESS_def)
  then show "\<exists>banned' user' res'.
      \<not> is_admin user' \<and> name user' \<in> set banned' \<and> name user' = owner res' \<and>
      isAllowed [ALLOW_ADMINS, OWNER_CAN_ACCESS, DENY_BANNED banned', ALLOW_BY_TIER]
        user' res' = True"
    by blast
qed

theorem ban_overrides_ownership_witness:
  "\<not> is_admin \<lparr>name = ''carol'', tier = TierBasic, is_admin = False\<rparr> \<and>
   ''carol'' \<in> set [''carol''] \<and>
   isAllowed (normal_policy [''carol''])
     \<lparr>name = ''carol'', tier = TierBasic, is_admin = False\<rparr>
     \<lparr>vis = VisPublic, owner = ''carol''\<rparr> = False"
proof -
  let ?carol = "\<lparr>name = ''carol'', tier = TierBasic, is_admin = False\<rparr>"
  let ?r = "\<lparr>vis = VisPublic, owner = ''carol''\<rparr>"
  have h: "\<not> is_admin ?carol \<and> name ?carol \<in> set [''carol''] \<and> name ?carol = owner ?r"
    by simp
  from ban_overrides_ownership [where user = ?carol and banned = "[''carol'']" and res = ?r] h
  have "isAllowed (normal_policy [''carol'']) ?carol ?r = False" by blast
  with h show ?thesis by simp
qed

text \<open>
  C6: alice, a basic user who is neither an administrator nor banned, asks for a premium
  resource owned by bob. The baseline policy refuses her; the policy with
  FREE_PREMIUM_ACCESS inserted before ALLOW_BY_TIER, which is \<open>anniversary_policy\<close>,
  allows her.
\<close>

theorem scenario_B:
  "''alice'' \<notin> set banned \<Longrightarrow>
   isAllowed (normal_policy banned)
     \<lparr>name = ''alice'', tier = TierBasic, is_admin = False\<rparr>
     \<lparr>vis = VisPremium, owner = ''bob''\<rparr> = False \<and>
   anniversary_policy banned =
     take 3 (normal_policy banned) @ FREE_PREMIUM_ACCESS # drop 3 (normal_policy banned) \<and>
   isAllowed (anniversary_policy banned)
     \<lparr>name = ''alice'', tier = TierBasic, is_admin = False\<rparr>
     \<lparr>vis = VisPremium, owner = ''bob''\<rparr> = True"
  by (simp add: isAllowed_def normal_policy_def anniversary_policy_def ALLOW_ADMINS_def
      DENY_BANNED_def OWNER_CAN_ACCESS_def ALLOW_BY_TIER_def FREE_PREMIUM_ACCESS_def)

theorem scenario_B_witness:
  "''alice'' \<notin> set BANNED_USERS \<and>
   isAllowed (normal_policy BANNED_USERS)
     \<lparr>name = ''alice'', tier = TierBasic, is_admin = False\<rparr>
     \<lparr>vis = VisPremium, owner = ''bob''\<rparr> = False \<and>
   isAllowed (anniversary_policy BANNED_USERS)
     \<lparr>name = ''alice'', tier = TierBasic, is_admin = False\<rparr>
     \<lparr>vis = VisPremium, owner = ''bob''\<rparr> = True"
proof -
  have h: "''alice'' \<notin> set BANNED_USERS" by (simp add: BANNED_USERS_def)
  from scenario_B [OF h] h show ?thesis by blast
qed

section \<open>Example 3 against Example 2\<close>

text \<open>
  C10: the strategy implementation of Example 3, run with \<open>normal_policies\<close>, returns the
  same boolean as the guard implementation of Example 2, for every user and resource, when
  both read the same ban list.
\<close>

theorem isAllowed_v3_normal_eq_v2:
  "isAllowed_v3 (normal_policies banned) user res = isAllowed_v2 banned user res"
  by (cases "vis res")
    (simp_all add: isAllowed_v3_def isAllowed_v2_def normal_policies_def member_at_def)

end
